theory Spec2Isabelle
  imports Complex_Main "HOL-Library.Word"
begin

unbundle bit_operations_syntax

section \<open>Audio samples: IEEE-754 binary32 bit patterns\<close>

text \<open>
  \<^verbatim>\<open>np.frombuffer(audio_bytes, dtype=np.float32)\<close> reinterprets every four bytes of
  the request as one float32, so every 32-bit pattern is a sample the service can receive,
  NaN and the infinities included. A sample is therefore its bit pattern: sign (bit 31),
  biased exponent (bits 30..23) and mantissa (bits 22..0).
\<close>

type_synonym float32 = "32 word"
type_synonym byte = "8 word"

definition f32_sign :: "float32 \<Rightarrow> bool" where
  "f32_sign w = (2 ^ 31 \<le> uint w)"

definition f32_exponent :: "float32 \<Rightarrow> nat" where
  "f32_exponent w = nat ((uint w div 2 ^ 23) mod 256)"

definition f32_mantissa :: "float32 \<Rightarrow> int" where
  "f32_mantissa w = uint w mod 2 ^ 23"

definition f32_is_nan :: "float32 \<Rightarrow> bool" where
  "f32_is_nan w = (f32_exponent w = 255 \<and> f32_mantissa w \<noteq> 0)"

definition f32_is_inf :: "float32 \<Rightarrow> bool" where
  "f32_is_inf w = (f32_exponent w = 255 \<and> f32_mantissa w = 0)"


text \<open>The magnitude of a finite sample, counted in units of \<open>2 ^ -149\<close>.\<close>

definition f32_mag :: "float32 \<Rightarrow> int" where
  "f32_mag w = (if f32_exponent w = 0 then f32_mantissa w
                else (2 ^ 23 + f32_mantissa w) * 2 ^ (f32_exponent w - 1))"


definition f32_zero :: float32 where "f32_zero = 0"
definition f32_one :: float32 where "f32_one = 0x3F800000"
definition f32_pos_inf :: float32 where "f32_pos_inf = 0x7F800000"
definition f32_quiet_nan :: float32 where "f32_quiet_nan = 0x7FC00000"

text \<open>\<^verbatim>\<open>np.abs\<close>: the sign bit is cleared (also on a NaN).\<close>

definition f32_abs :: "float32 \<Rightarrow> float32" where
  "f32_abs w = w AND 0x7FFFFFFF"

text \<open>
  Comparison of two samples. A comparison with a NaN operand is false. Otherwise the
  sign-and-magnitude integer read from the bit pattern orders the samples as their values
  do (both zeros read 0).
\<close>

definition f32_key :: "float32 \<Rightarrow> int" where
  "f32_key w = (if f32_sign w then - uint (f32_abs w) else uint (f32_abs w))"

definition f32_less :: "float32 \<Rightarrow> float32 \<Rightarrow> bool" where
  "f32_less a b = (\<not> f32_is_nan a \<and> \<not> f32_is_nan b \<and> f32_key a < f32_key b)"

text \<open>
  \<^verbatim>\<open>ndarray.max()\<close> reduces with \<^verbatim>\<open>np.maximum\<close>, which propagates NaN: once an operand
  is NaN the result is NaN.
\<close>

definition f32_maximum :: "float32 \<Rightarrow> float32 \<Rightarrow> float32" where
  "f32_maximum a b = (if f32_is_nan a then a else if f32_is_nan b then b
                      else if f32_less a b then b else a)"

fun np_max :: "float32 list \<Rightarrow> float32" where
  "np_max [] = f32_zero"
| "np_max (x # xs) = foldl f32_maximum x xs"

text \<open>
  Division, rounded to nearest, ties to even. For finite nonzero operands of magnitudes
  \<open>a\<close> and \<open>b\<close> (in the common unit) the quotient \<open>a / b\<close> is scaled to the unit
  \<open>2 ^ -149\<close>, the binade \<open>j\<close> is the least one whose 24-bit significand holds the
  integer part, and the rounded significand \<open>n\<close> is placed at \<open>j * 2 ^ 23 + n\<close>: a carry
  out of the significand moves into the exponent field by itself. A pattern at or beyond
  the exponent 255 is an overflow and gives infinity.
\<close>

function bit_length :: "int \<Rightarrow> nat" where
  "bit_length n = (if n \<le> 0 then 0 else Suc (bit_length (n div 2)))"
  by pat_completeness auto
termination
  by (relation "measure nat") auto

declare bit_length.simps [simp del]

definition round_half_even :: "int \<Rightarrow> int \<Rightarrow> int" where
  "round_half_even num den =
     (let q = num div den; r = num mod den
      in if den < 2 * r \<or> (2 * r = den \<and> odd q) then q + 1 else q)"

definition f32_round_quot :: "int \<Rightarrow> int \<Rightarrow> int" where
  "f32_round_quot a b =
     (let num = a * 2 ^ 149;
          j = bit_length (num div b) - 24;
          n = round_half_even num (b * 2 ^ j)
      in min (int j * 2 ^ 23 + n) (255 * 2 ^ 23))"

definition f32_with_sign :: "bool \<Rightarrow> int \<Rightarrow> float32" where
  "f32_with_sign s m = word_of_int (if s then 2 ^ 31 + m else m)"

text \<open>
  The special cases are those of the x86-64 SSE unit that numpy's division loop runs on: a
  NaN operand is propagated with its quiet bit set, the dividend first, and an invalid
  operation (\<open>inf / inf\<close>, \<open>0 / 0\<close>) gives the default NaN, whose sign bit is set.
\<close>

definition f32_default_nan :: float32 where "f32_default_nan = 0xFFC00000"

definition f32_quieted :: "float32 \<Rightarrow> float32" where
  "f32_quieted w = w OR 0x00400000"

definition f32_div :: "float32 \<Rightarrow> float32 \<Rightarrow> float32" where
  "f32_div x y =
     (let s = (f32_sign x \<noteq> f32_sign y) in
      if f32_is_nan x then f32_quieted x
      else if f32_is_nan y then f32_quieted y
      else if f32_is_inf x then (if f32_is_inf y then f32_default_nan else f32_with_sign s (255 * 2 ^ 23))
      else if f32_is_inf y then f32_with_sign s 0
      else if f32_mag y = 0 then (if f32_mag x = 0 then f32_default_nan else f32_with_sign s (255 * 2 ^ 23))
      else if f32_mag x = 0 then f32_with_sign s 0
      else f32_with_sign s (f32_round_quot (f32_mag x) (f32_mag y)))"


section \<open>Bytes and base64\<close>

text \<open>
  \<^verbatim>\<open>ndarray.tobytes()\<close> and \<^verbatim>\<open>np.frombuffer\<close> for \<^verbatim>\<open>float32\<close>, little-endian:
  four bytes per sample, and a buffer whose size is no multiple of four raises ValueError.
\<close>

definition f32_to_bytes :: "float32 \<Rightarrow> byte list" where
  "f32_to_bytes w = [ucast w, ucast (drop_bit 8 w), ucast (drop_bit 16 w), ucast (drop_bit 24 w)]"

definition f32_of_bytes :: "byte \<Rightarrow> byte \<Rightarrow> byte \<Rightarrow> byte \<Rightarrow> float32" where
  "f32_of_bytes b0 b1 b2 b3 =
     ucast b0 OR push_bit 8 (ucast b1) OR push_bit 16 (ucast b2) OR push_bit 24 (ucast b3)"

definition tobytes :: "float32 list \<Rightarrow> byte list" where
  "tobytes xs = concat (map f32_to_bytes xs)"

fun group4 :: "byte list \<Rightarrow> float32 list" where
  "group4 (b0 # b1 # b2 # b3 # bs) = f32_of_bytes b0 b1 b2 b3 # group4 bs"
| "group4 _ = []"

definition frombuffer :: "byte list \<Rightarrow> string + float32 list" where
  "frombuffer bs = (if length bs mod 4 \<noteq> 0
                    then Inl ''buffer size must be a multiple of element size''
                    else Inr (group4 bs))"

text \<open>
  \<^verbatim>\<open>base64.b64encode\<close>: the standard alphabet, three bytes to four characters, \<open>=\<close>
  padding. Sextets are natural numbers below 64.
\<close>

definition b64_alphabet :: string where
  "b64_alphabet = ''ABCDEFGHIJKLMNOPQRSTUVWXYZabcdefghijklmnopqrstuvwxyz0123456789+/''"

definition b64_char :: "nat \<Rightarrow> char" where
  "b64_char i = b64_alphabet ! i"

fun b64encode :: "byte list \<Rightarrow> string" where
  "b64encode [] = []"
| "b64encode [a] =
     [b64_char (unat a div 4), b64_char (unat a mod 4 * 16), CHR ''='', CHR ''='']"
| "b64encode [a, b] =
     [b64_char (unat a div 4), b64_char (unat a mod 4 * 16 + unat b div 16),
      b64_char (unat b mod 16 * 4), CHR ''='']"
| "b64encode (a # b # c # bs) =
     b64_char (unat a div 4) # b64_char (unat a mod 4 * 16 + unat b div 16) #
     b64_char (unat b mod 16 * 4 + unat c div 64) # b64_char (unat c mod 64) # b64encode bs"

text \<open>
  \<^verbatim>\<open>base64.b64decode(s)\<close> with its defaults: a \<^verbatim>\<open>str\<close> argument must be ASCII, and
  \<^verbatim>\<open>binascii.a2b_base64\<close> in its non-strict mode skips every character outside the
  alphabet, stops at a completing run of padding and raises when the data characters do
  not fill their last group. The state is the position in the group of four, the bits
  left over from the previous character and the padding characters seen since the last
  data character.
\<close>

fun index_of :: "'a list \<Rightarrow> 'a \<Rightarrow> nat option" where
  "index_of [] c = None"
| "index_of (x # xs) c = (if x = c then Some 0 else map_option Suc (index_of xs c))"

definition b64_index :: "char \<Rightarrow> nat option" where
  "b64_index c = index_of b64_alphabet c"

definition emit :: "'a \<Rightarrow> string + 'a list \<Rightarrow> string + 'a list" where
  "emit b r = (case r of Inl e \<Rightarrow> Inl e | Inr bs \<Rightarrow> Inr (b # bs))"

fun a2b_base64 :: "nat \<Rightarrow> nat \<Rightarrow> nat \<Rightarrow> string \<Rightarrow> string + byte list" where
  "a2b_base64 quad_pos leftchar pads [] =
     (if quad_pos = 0 then Inr []
      else if quad_pos = 1
      then Inl ''Invalid base64-encoded string: number of data characters cannot be 1 more than a multiple of 4''
      else Inl ''Incorrect padding'')"
| "a2b_base64 quad_pos leftchar pads (c # cs) =
     (if c = CHR ''='' then
        (if 2 \<le> quad_pos \<and> 4 \<le> quad_pos + (pads + 1) then Inr []
         else a2b_base64 quad_pos leftchar (if 2 \<le> quad_pos then pads + 1 else pads) cs)
      else case b64_index c of
        None \<Rightarrow> a2b_base64 quad_pos leftchar pads cs
      | Some v \<Rightarrow>
          (if quad_pos = 0 then a2b_base64 1 v 0 cs
           else if quad_pos = 1
           then emit (of_nat (leftchar * 4 + v div 16)) (a2b_base64 2 (v mod 16) 0 cs)
           else if quad_pos = 2
           then emit (of_nat (leftchar * 16 + v div 4)) (a2b_base64 3 (v mod 4) 0 cs)
           else emit (of_nat (leftchar * 64 + v)) (a2b_base64 0 0 0 cs)))"

definition b64decode :: "string \<Rightarrow> string + byte list" where
  "b64decode s =
     (if \<exists>c \<in> set s. 128 \<le> (of_char c :: nat)
      then Inl ''string argument should contain only ASCII characters''
      else a2b_base64 0 0 0 s)"

section \<open>Values: parsed commands and result dictionaries\<close>

text \<open>
  What \<^verbatim>\<open>json.loads\<close> returns. An object is read through \<^verbatim>\<open>dict.get\<close> only, so it is
  the association list of its members.
\<close>

datatype json =
    JNull
  | JBool bool
  | JInt int
  | JFloat real
  | JStr string
  | JArr "json list"
  | JObj "(string \<times> json) list"

text \<open>
  The values a result dictionary holds before it is serialised. \<open>PArray\<close> is a numpy
  array: \<^verbatim>\<open>json.dumps\<close> raises TypeError on it.
\<close>

datatype pval =
    PNone
  | PBool bool
  | PInt int
  | PFloat real
  | PStr string
  | PArray "float32 list"
  | PDict "(string \<times> pval) list"

type_synonym result = "(string \<times> pval) list"

fun serializable :: "pval \<Rightarrow> bool" where
  "serializable (PArray xs) = False"
| "serializable (PDict kvs) = list_all (\<lambda>kv. serializable (snd kv)) kvs"
| "serializable _ = True"

definition json_dumps :: "result \<Rightarrow> string + result" where
  "json_dumps r = (if serializable (PDict r) then Inr r
                   else Inl ''Object of type ndarray is not JSON serializable'')"

text \<open>\<^verbatim>\<open>d[k] = v\<close>: an existing key keeps its place, a new one goes last.\<close>

fun dict_set :: "string \<Rightarrow> pval \<Rightarrow> result \<Rightarrow> result" where
  "dict_set k v [] = [(k, v)]"
| "dict_set k v ((k', v') # r) = (if k' = k then (k, v) # r else (k', v') # dict_set k v r)"

definition lookup :: "result \<Rightarrow> string \<Rightarrow> pval option" where
  "lookup r k = map_of r k"

definition status_of :: "result \<Rightarrow> string" where
  "status_of r = (case lookup r ''status'' of Some (PStr s) \<Rightarrow> s | _ \<Rightarrow> [])"

definition message_of :: "result \<Rightarrow> string" where
  "message_of r = (case lookup r ''message'' of Some (PStr s) \<Rightarrow> s | _ \<Rightarrow> [])"

section \<open>The session state\<close>

record stats =
  total_processed :: nat
  total_time :: real
  avg_time :: real
  max_time :: real
  errors :: nat

text \<open>A loaded model is known by the text of its type, which \<open>model_type\<close> inspects.\<close>

datatype model_handle = ModelHandle string

record service =
  model :: "model_handle option"
  has_apply_model :: bool
  device :: string
  is_initialized :: bool
  processing_stats :: stats

definition new_service :: "string \<Rightarrow> service" where
  "new_service dev =
     \<lparr> model = None, has_apply_model = False, device = dev, is_initialized = False,
       processing_stats =
         \<lparr> total_processed = 0, total_time = 0, avg_time = 0, max_time = 0, errors = 0 \<rparr> \<rparr>"

definition stats_dict :: "stats \<Rightarrow> result" where
  "stats_dict st =
     [(''total_processed'', PInt (int (total_processed st))),
      (''total_time'', PFloat (total_time st)),
      (''avg_time'', PFloat (avg_time st)),
      (''max_time'', PFloat (max_time st)),
      (''errors'', PInt (int (errors st)))]"

section \<open>The world outside the service\<close>

text \<open>
  What the libraries and the machine answer while one line is handled: the parser, the
  model loaders, the model itself, the clock and the memory probe. An exception is the
  text of its message. The model returns the samples left after the batch and channel
  dimensions are squeezed away, of whatever length it likes; every failure between
  handing it the tensor and reading the length of its output is its \<open>Inl\<close>. The clock
  readings and the statistics computed from them are Python floats; they are taken as
  the real numbers they denote.
\<close>

datatype loading =
    DemucsLoaded model_handle
  | DemucsRaised string
  | SpeechBrainLoaded model_handle
  | SpeechBrainRaised string

record env =
  json_loads :: "string \<Rightarrow> string + json"
  load_model :: loading
  to_device_eval :: "string option"
  apply_model :: "float32 list \<Rightarrow> string + float32 list"
  enhance_batch :: "float32 list \<Rightarrow> string + float32 list"
  time_start :: real
  time_end :: real
  psutil :: "string + real \<times> real \<times> real"

section \<open>The service\<close>

fun is_prefix :: "string \<Rightarrow> string \<Rightarrow> bool" where
  "is_prefix [] ys = True"
| "is_prefix (x # xs) [] = False"
| "is_prefix (x # xs) (y # ys) = (x = y \<and> is_prefix xs ys)"

fun contains :: "string \<Rightarrow> string \<Rightarrow> bool" where
  "contains xs [] = (xs = [])"
| "contains xs (y # ys) = (is_prefix xs (y # ys) \<or> contains xs ys)"

definition init_failed :: "string \<Rightarrow> result" where
  "init_failed e =
     [(''status'', PStr ''error''),
      (''message'', PStr (''Model initialization failed: '' @ e)),
      (''error'', PStr e)]"

definition init_succeeded :: "service \<Rightarrow> real \<Rightarrow> result" where
  "init_succeeded s init_time =
     [(''status'', PStr ''success''),
      (''message'', PStr ''Model initialized successfully''),
      (''device'', PStr (device s)),
      (''model_type'',
         PStr (case model s of
                 Some (ModelHandle ty) \<Rightarrow>
                   if contains ''dns64'' ty then ''dns64'' else ''speechbrain_dns''
               | None \<Rightarrow> ''speechbrain_dns'')),
      (''init_time'', PFloat init_time)]"

text \<open>
  \<open>initialize_model\<close>: the loaders assign \<open>self.model\<close> (and \<open>self.apply_model\<close> for
  Demucs) before the model is moved to the device, so a failure there leaves the handle
  assigned; \<open>is_initialized\<close> is set on the success path only and never cleared.
\<close>

definition initialize_model :: "env \<Rightarrow> service \<Rightarrow> result \<times> service" where
  "initialize_model ev s =
     (case (case load_model ev of
              DemucsLoaded m \<Rightarrow> Inr (s\<lparr>model := Some m, has_apply_model := True\<rparr>)
            | DemucsRaised e \<Rightarrow> Inl e
            | SpeechBrainLoaded m \<Rightarrow> Inr (s\<lparr>model := Some m\<rparr>)
            | SpeechBrainRaised e \<Rightarrow> Inl (''Failed to load any denoising model: '' @ e)) of
        Inl e \<Rightarrow> (init_failed e, s)
      | Inr s1 \<Rightarrow>
          (case to_device_eval ev of
             Some e \<Rightarrow> (init_failed e, s1)
           | None \<Rightarrow>
               (init_succeeded s1 (time_end ev - time_start ev), s1\<lparr>is_initialized := True\<rparr>)))"

text \<open>Lines 132 to 134: the buffer is rescaled when its largest magnitude exceeds one.\<close>

definition normalize_audio :: "float32 list \<Rightarrow> float32 list" where
  "normalize_audio audio_data =
     (if f32_less f32_one (np_max (map f32_abs audio_data))
      then map (\<lambda>x. f32_div x (np_max (map f32_abs audio_data))) audio_data
      else audio_data)"

text \<open>Lines 146 to 152: Demucs through \<open>apply_model\<close> when that attribute is set.\<close>

definition invoke_model :: "env \<Rightarrow> service \<Rightarrow> float32 list \<Rightarrow> string + float32 list" where
  "invoke_model ev s audio = (if has_apply_model s then apply_model ev audio else enhance_batch ev audio)"

text \<open>Lines 162 to 168: the output is cut or padded with zeros to the input's length.\<close>

definition match_length :: "nat \<Rightarrow> float32 list \<Rightarrow> float32 list" where
  "match_length n denoised =
     (if length denoised \<noteq> n
      then (if n < length denoised then take n denoised
            else denoised @ replicate (n - length denoised) f32_zero)
      else denoised)"

definition update_stats :: "real \<Rightarrow> stats \<Rightarrow> stats" where
  "update_stats processing_time st =
     (let st1 = st\<lparr>total_processed := total_processed st + 1\<rparr>;
          st2 = st1\<lparr>total_time := total_time st1 + processing_time\<rparr>;
          st3 = st2\<lparr>avg_time := total_time st2 / real (total_processed st2)\<rparr>
      in st3\<lparr>max_time := max (max_time st3) processing_time\<rparr>)"

text \<open>The three shapes of dictionary \<open>process_audio\<close> returns.\<close>

definition process_refused :: "string \<Rightarrow> result" where
  "process_refused msg =
     [(''status'', PStr ''error''), (''message'', PStr msg),
      (''audio'', PNone), (''processing_time'', PInt 0)]"

definition process_succeeded :: "float32 list \<Rightarrow> real \<Rightarrow> nat \<Rightarrow> stats \<Rightarrow> result" where
  "process_succeeded denoised_audio processing_time input_samples st =
     [(''status'', PStr ''success''),
      (''audio'', PArray denoised_audio),
      (''processing_time'', PFloat processing_time),
      (''input_samples'', PInt (int input_samples)),
      (''output_samples'', PInt (int (length denoised_audio))),
      (''stats'', PDict (stats_dict st))]"

definition process_failed :: "string \<Rightarrow> float32 list \<Rightarrow> real \<Rightarrow> result" where
  "process_failed e audio_data processing_time =
     [(''status'', PStr ''error''),
      (''message'', PStr (''Audio processing failed: '' @ e)),
      (''audio'', PArray audio_data),
      (''processing_time'', PFloat processing_time),
      (''error'', PStr e)]"

definition count_error :: "service \<Rightarrow> service" where
  "count_error s =
     s\<lparr>processing_stats := (processing_stats s)\<lparr>errors := errors (processing_stats s) + 1\<rparr>\<rparr>"

definition elapsed_ms :: "env \<Rightarrow> real" where
  "elapsed_ms ev = (time_end ev - time_start ev) * 1000"

text \<open>
  \<open>process_audio\<close>. In the handler \<open>audio_data\<close> is the local variable, which line 134
  has rebound to the rescaled buffer when it rescaled.
\<close>

definition process_audio :: "env \<Rightarrow> service \<Rightarrow> float32 list \<Rightarrow> result \<times> service" where
  "process_audio ev s audio_data =
     (if \<not> is_initialized s \<or> model s = None then (process_refused ''Model not initialized'', s)
      else if audio_data = [] then (process_refused ''Empty audio data'', s)
      else
        (let audio = normalize_audio audio_data
         in case invoke_model ev s audio of
              Inr denoised \<Rightarrow>
                (let denoised_audio = match_length (length audio) denoised;
                     st = update_stats (elapsed_ms ev) (processing_stats s)
                 in (process_succeeded denoised_audio (elapsed_ms ev) (length audio) st,
                     s\<lparr>processing_stats := st\<rparr>))
            | Inl e \<Rightarrow> (process_failed e audio (elapsed_ms ev), count_error s)))"

definition get_memory_usage :: "env \<Rightarrow> result" where
  "get_memory_usage ev =
     (case psutil ev of
        Inl e \<Rightarrow> [(''error'', PStr e)]
      | Inr (rss, vms, cpu) \<Rightarrow>
          [(''rss_mb'', PFloat (rss / 1024 / 1024)), (''vms_mb'', PFloat (vms / 1024 / 1024)),
           (''cpu_percent'', PFloat cpu)])"

definition health_check :: "env \<Rightarrow> service \<Rightarrow> result" where
  "health_check ev s =
     [(''status'', PStr (if is_initialized s then ''healthy'' else ''not_initialized'')),
      (''model_loaded'', PBool (is_initialized s)),
      (''device'', PStr (device s)),
      (''stats'', PDict (stats_dict (processing_stats s))),
      (''memory_usage'', PDict (get_memory_usage ev))]"

section \<open>The main loop\<close>

text \<open>
  The characters that \<^verbatim>\<open>str.strip()\<close> removes, among the code points below 256: the
  ASCII white space, the separators 28 to 31, NEL (133) and the no-break space (160).
\<close>

definition is_space :: "char \<Rightarrow> bool" where
  "is_space c = ((of_char c :: nat) \<in> {9, 10, 11, 12, 13, 28, 29, 30, 31, 32, 133, 160})"

definition strip :: "string \<Rightarrow> string" where
  "strip s = rev (dropWhile is_space (rev (dropWhile is_space s)))"

text \<open>Python's truth value of a parsed JSON value (\<^verbatim>\<open>if not audio_b64\<close>).\<close>

fun truthy :: "json option \<Rightarrow> bool" where
  "truthy None = False"
| "truthy (Some JNull) = False"
| "truthy (Some (JBool b)) = b"
| "truthy (Some (JInt i)) = (i \<noteq> 0)"
| "truthy (Some (JFloat x)) = (x \<noteq> 0)"
| "truthy (Some (JStr s)) = (s \<noteq> [])"
| "truthy (Some (JArr xs)) = (xs \<noteq> [])"
| "truthy (Some (JObj kvs)) = (kvs \<noteq> [])"

text \<open>
  The text of the command's kind inside the message for an unknown command; numbers and
  containers are not spelled out.
\<close>

fun py_str :: "json option \<Rightarrow> string" where
  "py_str (Some (JStr s)) = s"
| "py_str None = ''None''"
| "py_str (Some JNull) = ''None''"
| "py_str (Some (JBool b)) = (if b then ''True'' else ''False'')"
| "py_str _ = ''<value>''"

definition decoding_failed :: "string \<Rightarrow> result" where
  "decoding_failed e =
     [(''status'', PStr ''error''),
      (''message'', PStr (''Audio decoding/encoding failed: '' @ e)),
      (''error'', PStr e)]"

definition no_audio :: result where
  "no_audio = [(''status'', PStr ''error''), (''message'', PStr ''No audio data provided'')]"

text \<open>Lines 263 to 265: base64 text to bytes to samples.\<close>

definition decode_audio :: "string \<Rightarrow> string + float32 list" where
  "decode_audio a = (case b64decode a of Inl e \<Rightarrow> Inl e | Inr audio_bytes \<Rightarrow> frombuffer audio_bytes)"

text \<open>
  Lines 271 to 274: the audio of a successful result is replaced by its base64 text; any
  other result is passed on as it is.
\<close>

definition encode_result :: "result \<Rightarrow> result" where
  "encode_result process_result =
     (case lookup process_result ''audio'' of
        Some (PArray out) \<Rightarrow>
          (if status_of process_result = ''success''
           then dict_set ''audio'' (PStr (b64encode (tobytes out))) process_result
           else process_result)
      | _ \<Rightarrow> process_result)"

text \<open>Lines 257 to 283: the branch of the loop for a \<open>process\<close> command.\<close>

definition handle_process :: "env \<Rightarrow> service \<Rightarrow> json option \<Rightarrow> result \<times> service" where
  "handle_process ev s audio_b64 =
     (if \<not> truthy audio_b64 then (no_audio, s)
      else case audio_b64 of
        Some (JStr a) \<Rightarrow>
          (case decode_audio a of
             Inl e \<Rightarrow> (decoding_failed e, s)
           | Inr audio_array \<Rightarrow>
               (let (process_result, s1) = process_audio ev s audio_array
                in (encode_result process_result, s1)))
      | _ \<Rightarrow>
          (decoding_failed ''argument should be a bytes-like object or ASCII string'', s))"

text \<open>
  Lines 247 to 313: one line of input. The result of the branch is serialised by
  \<^verbatim>\<open>json.dumps\<close> inside the \<^verbatim>\<open>try\<close>; when that raises, the general handler answers
  with a service error, and the state the branch has reached stays.
\<close>

definition service_error :: "string \<Rightarrow> result" where
  "service_error e =
     [(''status'', PStr ''error''), (''message'', PStr (''Service error: '' @ e)),
      (''error'', PStr e)]"

definition invalid_json :: "string \<Rightarrow> result" where
  "invalid_json e =
     [(''status'', PStr ''error''), (''message'', PStr (''Invalid JSON: '' @ e)),
      (''error'', PStr e)]"

definition unknown_command :: "json option \<Rightarrow> result" where
  "unknown_command command_type =
     [(''status'', PStr ''error''),
      (''message'', PStr (''Unknown command: '' @ py_str command_type))]"

definition dispatch :: "env \<Rightarrow> service \<Rightarrow> (string \<times> json) list \<Rightarrow> result \<times> service" where
  "dispatch ev s command =
     (let command_type = map_of command ''command'' in
      if command_type = Some (JStr ''init'') then initialize_model ev s
      else if command_type = Some (JStr ''process'') then handle_process ev s (map_of command ''audio'')
      else if command_type = Some (JStr ''health'') then (health_check ev s, s)
      else (unknown_command command_type, s))"

definition handle_line :: "env \<Rightarrow> service \<Rightarrow> string \<Rightarrow> result \<times> service" where
  "handle_line ev s line =
     (case json_loads ev (strip line) of
        Inl e \<Rightarrow> (invalid_json e, s)
      | Inr (JObj command) \<Rightarrow>
          (let (result, s1) = dispatch ev s command
           in case json_dumps result of
                Inr out \<Rightarrow> (out, s1)
              | Inl e \<Rightarrow> (service_error e, s1))
      | Inr _ \<Rightarrow> (service_error ''object has no attribute get'', s))"

text \<open>
  \<open>main\<close>: the loop reads lines until \<^verbatim>\<open>readline\<close> returns the empty string (end of
  input); each line comes with the world's answers while it is handled. The value is the
  responses printed, in order, and the final state.
\<close>

fun main_loop :: "service \<Rightarrow> (env \<times> string) list \<Rightarrow> result list \<times> service" where
  "main_loop s [] = ([], s)"
| "main_loop s ((ev, line) # rest) =
     (if line = [] then ([], s)
      else (let (r, s1) = handle_line ev s line;
                (rs, s2) = main_loop s1 rest
            in (r # rs, s2)))"

section \<open>Runs of the service\<close>

definition command_of :: "env \<Rightarrow> string \<Rightarrow> json option" where
  "command_of ev line =
     (case json_loads ev (strip line) of Inr (JObj command) \<Rightarrow> map_of command ''command'' | _ \<Rightarrow> None)"

definition audio_of :: "env \<Rightarrow> string \<Rightarrow> json option" where
  "audio_of ev line =
     (case json_loads ev (strip line) of Inr (JObj command) \<Rightarrow> map_of command ''audio'' | _ \<Rightarrow> None)"

fun count_success :: "string \<Rightarrow> service \<Rightarrow> (env \<times> string) list \<Rightarrow> nat" where
  "count_success kind s [] = 0"
| "count_success kind s ((ev, line) # rest) =
     (if line = [] then 0
      else (if command_of ev line = Some (JStr kind) \<and> status_of (fst (handle_line ev s line)) = ''success''
            then 1 else 0)
           + count_success kind (snd (handle_line ev s line)) rest)"

definition stats_field :: "result \<Rightarrow> string \<Rightarrow> pval option" where
  "stats_field r k = (case lookup r ''stats'' of Some (PDict d) \<Rightarrow> lookup d k | _ \<Rightarrow> None)"

definition process_response :: "float32 list \<Rightarrow> real \<Rightarrow> nat \<Rightarrow> stats \<Rightarrow> result" where
  "process_response d t n st = encode_result (process_succeeded d t n st)"

datatype outcome = Refused | Succeeded | Failed

definition outcome_ok :: "env \<Rightarrow> service \<Rightarrow> outcome \<Rightarrow> result \<times> service \<Rightarrow> bool" where
  "outcome_ok ev s oc p =
     (case oc of
        Refused \<Rightarrow> snd p = s \<and> status_of (fst p) = ''error'' \<and> json_dumps (fst p) = Inr (fst p)
      | Succeeded \<Rightarrow> status_of (fst p) = ''success'' \<and> json_dumps (fst p) = Inr (fst p)
            \<and> snd p = s\<lparr>processing_stats := update_stats (elapsed_ms ev) (processing_stats s)\<rparr>
      | Failed \<Rightarrow> json_dumps (fst p) = Inl ''Object of type ndarray is not JSON serializable''
            \<and> snd p = count_error s)"

definition settled :: "env \<Rightarrow> service \<Rightarrow> outcome \<Rightarrow> result \<times> service \<Rightarrow> bool" where
  "settled ev s oc p =
     (case oc of
        Refused \<Rightarrow> snd p = s \<and> status_of (fst p) = ''error''
      | Succeeded \<Rightarrow> status_of (fst p) = ''success''
            \<and> snd p = s\<lparr>processing_stats := update_stats (elapsed_ms ev) (processing_stats s)\<rparr>
      | Failed \<Rightarrow> status_of (fst p) = ''error'' \<and> snd p = count_error s)"

section \<open>A sample world\<close>

text \<open>
  A parser that knows a handful of lines, a Demucs model that returns its input, and a
  clock set by hand: the concrete world in which the theorems below are exercised.
\<close>

definition demo_loads :: "string \<Rightarrow> string + json" where
  \<open>demo_loads l =
     (if l = ''{"command": "init"}'' then Inr (JObj [(''command'', JStr ''init'')])
      else if l = ''{"command": "health"}'' then Inr (JObj [(''command'', JStr ''health'')])
      else if l = ''{"command": "process"}'' then Inr (JObj [(''command'', JStr ''process'')])
      else if l = ''{"command": "process", "audio": ""}''
        then Inr (JObj [(''command'', JStr ''process''), (''audio'', JStr [])])
      else if l = ''{"command": "process", "audio": "AAAA"}''
        then Inr (JObj [(''command'', JStr ''process''), (''audio'', JStr ''AAAA'')])
      else if l = ''{"command": "process", "audio": "AACAPw=="}''
        then Inr (JObj [(''command'', JStr ''process''), (''audio'', JStr ''AACAPw=='')])
      else if l = ''{"command": "process", "audio": "AADAfwAAAEA="}''
        then Inr (JObj [(''command'', JStr ''process''), (''audio'', JStr ''AADAfwAAAEA='')])
      else Inl ''Expecting value: line 1 column 1 (char 0)'')\<close>

definition demo_env :: "real \<Rightarrow> real \<Rightarrow> env" where
  "demo_env t0 t1 =
     \<lparr> json_loads = demo_loads,
       load_model = DemucsLoaded (ModelHandle ''demucs.demucs.Demucs''),
       to_device_eval = None,
       apply_model = (\<lambda>audio. Inr audio),
       enhance_batch = (\<lambda>audio. Inl ''enhance_batch is not available''),
       time_start = t0, time_end = t1,
       psutil = Inl ''psutil not available'' \<rparr>"

definition init_line :: string where \<open>init_line = ''{"command": "init"}'' @ [CHR 0x0A]\<close>
definition health_line :: string where \<open>health_line = ''{"command": "health"}'' @ [CHR 0x0A]\<close>
definition bare_process_line :: string where \<open>bare_process_line = ''{"command": "process"}'' @ [CHR 0x0A]\<close>
definition one_sample_line :: string where
  \<open>one_sample_line = ''{"command": "process", "audio": "AACAPw=="}'' @ [CHR 0x0A]\<close>


definition stats_inv :: "stats \<Rightarrow> bool" where
  "stats_inv st =
     (if total_processed st = 0 then avg_time st = 0 \<and> total_time st = 0
      else avg_time st = total_time st / real (total_processed st))"

definition no_model_env :: env where
  "no_model_env = (demo_env 0 1)\<lparr>load_model := SpeechBrainRaised ''No module named speechbrain''\<rparr>"

definition demo_run :: "(env \<times> string) list" where
  "demo_run = [(demo_env 0 2, init_line), (demo_env 5 5.01, one_sample_line),
               (demo_env 7 7.002, one_sample_line)]"

definition counters_le :: "stats \<Rightarrow> stats \<Rightarrow> bool" where
  "counters_le st st' =
     (total_processed st \<le> total_processed st' \<and> max_time st \<le> max_time st'
      \<and> errors st \<le> errors st')"

definition empty_audio_line :: string where
  \<open>empty_audio_line = ''{"command": "process", "audio": ""}'' @ [CHR 0x0A]\<close>

definition three_byte_line :: string where
  \<open>three_byte_line = ''{"command": "process", "audio": "AAAA"}'' @ [CHR 0x0A]\<close>

definition broken_model_env :: env where
  "broken_model_env = (demo_env 5 5.25)\<lparr>apply_model := (\<lambda>audio. Inl ''CUDA out of memory'')\<rparr>"

definition ready_service :: service where
  "ready_service = snd (initialize_model (demo_env 0 2) (new_service ''cpu''))"





section \<open>Properties\<close>

lemma serializable_stats_dict: "list_all (\<lambda>kv. serializable (snd kv)) (stats_dict st)"
  by (simp add: stats_dict_def)

lemma refused_facts:
  "status_of (process_refused m) = ''error''"
  "message_of (process_refused m) = m"
  "lookup (process_refused m) ''audio'' = Some PNone"
  "json_dumps (process_refused m) = Inr (process_refused m)"
  by (simp_all add: process_refused_def status_of_def message_of_def lookup_def json_dumps_def)

lemma succeeded_facts:
  "status_of (process_succeeded d t n st) = ''success''"
  "lookup (process_succeeded d t n st) ''audio'' = Some (PArray d)"
  "dict_set ''audio'' v (process_succeeded d t n st) =
     [(''status'', PStr ''success''), (''audio'', v), (''processing_time'', PFloat t),
      (''input_samples'', PInt (int n)), (''output_samples'', PInt (int (length d))),
      (''stats'', PDict (stats_dict st))]"
  by (simp_all add: process_succeeded_def status_of_def lookup_def)

lemma failed_facts:
  "status_of (process_failed e a t) = ''error''"
  "lookup (process_failed e a t) ''audio'' = Some (PArray a)"
  "json_dumps (process_failed e a t) = Inl ''Object of type ndarray is not JSON serializable''"
  by (simp_all add: process_failed_def status_of_def lookup_def json_dumps_def)

lemma encode_facts:
  "encode_result (process_refused m) = process_refused m"
  "encode_result (process_failed e a t) = process_failed e a t"
  "encode_result (process_succeeded d t n st) =
     [(''status'', PStr ''success''), (''audio'', PStr (b64encode (tobytes d))),
      (''processing_time'', PFloat t), (''input_samples'', PInt (int n)),
      (''output_samples'', PInt (int (length d))), (''stats'', PDict (stats_dict st))]"
  by (simp_all add: encode_result_def refused_facts failed_facts succeeded_facts)

lemma response_facts:
  "status_of (process_response d t n st) = ''success''"
  "lookup (process_response d t n st) ''audio'' = Some (PStr (b64encode (tobytes d)))"
  "json_dumps (process_response d t n st) = Inr (process_response d t n st)"
  by (simp_all add: process_response_def encode_facts status_of_def lookup_def json_dumps_def
        serializable_stats_dict)

lemma error_dict_facts:
  "status_of (decoding_failed e) = ''error''"
  "json_dumps (decoding_failed e) = Inr (decoding_failed e)"
  "status_of (service_error e) = ''error''"
  "status_of (init_failed e) = ''error''"
  "json_dumps (init_failed e) = Inr (init_failed e)"
  "status_of (init_succeeded s1 t) = ''success''"
  "status_of (invalid_json e) = ''error''"
  "message_of (invalid_json e) = ''Invalid JSON: '' @ e"
  "status_of (unknown_command k) = ''error''"
  "json_dumps (unknown_command k) = Inr (unknown_command k)"
  "status_of no_audio = ''error''"
  "message_of no_audio = ''No audio data provided''"
  "json_dumps no_audio = Inr no_audio"
  "json_dumps (init_succeeded s1 t) = Inr (init_succeeded s1 t)"
  by (simp_all add: decoding_failed_def service_error_def init_failed_def init_succeeded_def
        invalid_json_def unknown_command_def no_audio_def
        status_of_def message_of_def lookup_def json_dumps_def)

lemma process_audio_outcome:
  "\<exists>oc. outcome_ok ev s oc (case process_audio ev s buf of (r, s1) \<Rightarrow> (encode_result r, s1))"
proof -
  consider (a) "\<not> is_initialized s \<or> model s = None"
    | (b) "is_initialized s" "model s \<noteq> None" "buf = []"
    | (c) d where "is_initialized s" "model s \<noteq> None" "buf \<noteq> []"
        "invoke_model ev s (normalize_audio buf) = Inr d"
    | (d) e where "is_initialized s" "model s \<noteq> None" "buf \<noteq> []"
        "invoke_model ev s (normalize_audio buf) = Inl e"
    by (cases "invoke_model ev s (normalize_audio buf)") blast+
  then show ?thesis
  proof cases
    case a
    then have "outcome_ok ev s Refused (case process_audio ev s buf of (r, s1) \<Rightarrow> (encode_result r, s1))"
      by (simp add: process_audio_def outcome_ok_def encode_facts refused_facts)
    then show ?thesis ..
  next
    case b
    then have "outcome_ok ev s Refused (case process_audio ev s buf of (r, s1) \<Rightarrow> (encode_result r, s1))"
      by (simp add: process_audio_def outcome_ok_def encode_facts refused_facts)
    then show ?thesis ..
  next
    case c
    then have "outcome_ok ev s Succeeded (case process_audio ev s buf of (r, s1) \<Rightarrow> (encode_result r, s1))"
      by (auto simp: process_audio_def outcome_ok_def Let_def response_facts
            process_response_def [symmetric])
    then show ?thesis ..
  next
    case d
    then have "outcome_ok ev s Failed (case process_audio ev s buf of (r, s1) \<Rightarrow> (encode_result r, s1))"
      by (auto simp: process_audio_def outcome_ok_def Let_def encode_facts failed_facts)
    then show ?thesis ..
  qed
qed

lemma handle_process_outcome: "\<exists>oc. outcome_ok ev s oc (handle_process ev s a)"
proof (cases "truthy a")
  case False
  then have "outcome_ok ev s Refused (handle_process ev s a)"
    by (simp add: handle_process_def outcome_ok_def error_dict_facts)
  then show ?thesis ..
next
  case True
  show ?thesis
  proof (cases "\<exists>t. a = Some (JStr t)")
    case False
    with True have "outcome_ok ev s Refused (handle_process ev s a)"
      by (auto simp: handle_process_def outcome_ok_def error_dict_facts split: option.splits json.splits)
    then show ?thesis ..
  next
    case True
    then obtain t where t: "a = Some (JStr t)" by blast
    show ?thesis
    proof (cases "decode_audio t")
      case (Inl e)
      with t \<open>truthy a\<close> have "outcome_ok ev s Refused (handle_process ev s a)"
        by (simp add: handle_process_def outcome_ok_def error_dict_facts)
      then show ?thesis ..
    next
      case (Inr buf)
      with t \<open>truthy a\<close> have "handle_process ev s a =
          (case process_audio ev s buf of (r, s1) \<Rightarrow> (encode_result r, s1))"
        by (simp add: handle_process_def)
      then show ?thesis using process_audio_outcome [of ev s buf] by simp
    qed
  qed
qed

lemma handle_line_object:
  "json_loads ev (strip line) = Inr (JObj c) \<Longrightarrow>
   handle_line ev s line =
     (case json_dumps (fst (dispatch ev s c)) of
        Inr out \<Rightarrow> (out, snd (dispatch ev s c))
      | Inl e \<Rightarrow> (service_error e, snd (dispatch ev s c)))"
  by (simp add: handle_line_def split_beta)

lemma command_of_SomeD:
  "command_of ev line = Some k \<Longrightarrow>
   \<exists>c. json_loads ev (strip line) = Inr (JObj c) \<and> map_of c ''command'' = Some k"
  by (auto simp: command_of_def split: sum.splits json.splits)

lemma handle_line_process:
  assumes "command_of ev line = Some (JStr ''process'')"
  shows "\<exists>oc. settled ev s oc (handle_line ev s line)"
proof -
  from assms obtain c where c: "json_loads ev (strip line) = Inr (JObj c)"
    "map_of c ''command'' = Some (JStr ''process'')"
    by (blast dest: command_of_SomeD)
  then have d: "dispatch ev s c = handle_process ev s (map_of c ''audio'')"
    by (simp add: dispatch_def)
  obtain oc where oc: "outcome_ok ev s oc (handle_process ev s (map_of c ''audio''))"
    using handle_process_outcome by blast
  have "settled ev s oc (handle_line ev s line)"
    using oc by (cases oc) (simp_all add: handle_line_object [OF c(1)] d outcome_ok_def settled_def
        error_dict_facts)
  then show ?thesis ..
qed

lemma initialize_model_cases:
  "(status_of (fst (initialize_model ev s)) = ''success''
      \<and> is_initialized (snd (initialize_model ev s))
      \<and> model (snd (initialize_model ev s)) \<noteq> None)
   \<or> (status_of (fst (initialize_model ev s)) = ''error''
      \<and> is_initialized (snd (initialize_model ev s)) = is_initialized s)"
  by (cases "load_model ev"; cases "to_device_eval ev")
     (simp_all add: initialize_model_def error_dict_facts)

lemma initialize_model_stats:
  "processing_stats (snd (initialize_model ev s)) = processing_stats s"
  by (cases "load_model ev"; cases "to_device_eval ev") (simp_all add: initialize_model_def)

lemma initialize_model_dumps:
  "json_dumps (fst (initialize_model ev s)) = Inr (fst (initialize_model ev s))"
  by (cases "load_model ev"; cases "to_device_eval ev")
     (simp_all add: initialize_model_def error_dict_facts)

lemma handle_line_init:
  assumes "command_of ev line = Some (JStr ''init'')"
  shows "handle_line ev s line = initialize_model ev s"
proof -
  from assms obtain c where c: "json_loads ev (strip line) = Inr (JObj c)"
    "map_of c ''command'' = Some (JStr ''init'')"
    by (blast dest: command_of_SomeD)
  then have "dispatch ev s c = initialize_model ev s"
    by (simp add: dispatch_def)
  then show ?thesis
    by (simp add: handle_line_object [OF c(1)] initialize_model_dumps)
qed

lemma health_check_dumps: "json_dumps (health_check ev s) = Inr (health_check ev s)"
  by (cases "psutil ev")
     (auto simp: health_check_def json_dumps_def get_memory_usage_def serializable_stats_dict)

lemma handle_line_health:
  assumes "command_of ev line = Some (JStr ''health'')"
  shows "handle_line ev s line = (health_check ev s, s)"
proof -
  from assms obtain c where c: "json_loads ev (strip line) = Inr (JObj c)"
    "map_of c ''command'' = Some (JStr ''health'')"
    by (blast dest: command_of_SomeD)
  then have "dispatch ev s c = (health_check ev s, s)"
    by (simp add: dispatch_def)
  then show ?thesis
    by (simp add: handle_line_object [OF c(1)] health_check_dumps)
qed

lemma handle_line_other:
  assumes "command_of ev line \<noteq> Some (JStr ''init'')" "command_of ev line \<noteq> Some (JStr ''process'')"
  shows "snd (handle_line ev s line) = s \<and> status_of (fst (handle_line ev s line)) \<noteq> ''success''"
proof (cases "json_loads ev (strip line)")
  case (Inl e)
  then show ?thesis by (simp add: handle_line_def error_dict_facts)
next
  case (Inr j)
  show ?thesis
  proof (cases "\<exists>c. j = JObj c")
    case False
    with Inr show ?thesis
      by (cases j) (simp_all add: handle_line_def error_dict_facts)
  next
    case True
    then obtain c where j: "j = JObj c" by blast
    with Inr assms have k: "map_of c ''command'' \<noteq> Some (JStr ''init'')"
      "map_of c ''command'' \<noteq> Some (JStr ''process'')"
      by (simp_all add: command_of_def)
    show ?thesis
    proof (cases "map_of c ''command'' = Some (JStr ''health'')")
      case True
      with Inr j have "command_of ev line = Some (JStr ''health'')"
        by (simp add: command_of_def)
      then show ?thesis
        by (simp add: handle_line_health health_check_def status_of_def lookup_def)
    next
      case False
      with k have "dispatch ev s c = (unknown_command (map_of c ''command''), s)"
        by (simp add: dispatch_def)
      with Inr j show ?thesis
        by (simp add: handle_line_object error_dict_facts)
    qed
  qed
qed

lemma strip_demo:
  "strip init_line = take 19 init_line"
  "strip health_line = take 21 health_line"
  "strip bare_process_line = take 22 bare_process_line"
  "strip one_sample_line = take 43 one_sample_line"
  by code_simp+

lemma demo_commands:
  "command_of (demo_env t0 t1) init_line = Some (JStr ''init'')"
  "command_of (demo_env t0 t1) health_line = Some (JStr ''health'')"
  "command_of (demo_env t0 t1) bare_process_line = Some (JStr ''process'')"
  "command_of (demo_env t0 t1) one_sample_line = Some (JStr ''process'')"
  "audio_of (demo_env t0 t1) bare_process_line = None"
  "audio_of (demo_env t0 t1) one_sample_line = Some (JStr ''AACAPw=='')"
  by code_simp+

lemma decode_one: "decode_audio ''AACAPw=='' = Inr [f32_one]"
  by code_simp


lemma flag_step:
  "is_initialized (snd (handle_line ev s line)) =
     (is_initialized s \<or>
      (command_of ev line = Some (JStr ''init'') \<and> status_of (fst (handle_line ev s line)) = ''success''))"
proof (cases "command_of ev line = Some (JStr ''init'')")
  case True
  then show ?thesis
    using initialize_model_cases [of ev s] by (auto simp: handle_line_init)
next
  case False
  show ?thesis
  proof (cases "command_of ev line = Some (JStr ''process'')")
    case True
    then obtain oc where "settled ev s oc (handle_line ev s line)"
      using handle_line_process by blast
    then show ?thesis using False
      by (cases oc) (auto simp: settled_def count_error_def)
  next
    case p: False
    with False show ?thesis by (simp add: handle_line_other)
  qed
qed

lemma stats_step_other:
  "command_of ev line \<noteq> Some (JStr ''process'') \<Longrightarrow>
   processing_stats (snd (handle_line ev s line)) = processing_stats s"
  by (cases "command_of ev line = Some (JStr ''init'')")
     (simp_all add: handle_line_init initialize_model_stats handle_line_other)

lemma uninitialized_run:
  "\<not> is_initialized s \<Longrightarrow> count_success ''init'' s es = 0 \<Longrightarrow>
   \<not> is_initialized (snd (main_loop s es))"
proof (induction es arbitrary: s)
  case Nil
  then show ?case by simp
next
  case (Cons a es)
  obtain ev line where a: "a = (ev, line)" by (cases a)
  show ?case
  proof (cases "line = []")
    case True
    with a Cons.prems show ?thesis by simp
  next
    case False
    with a Cons.prems have
      n: "\<not> (command_of ev line = Some (JStr ''init'')
             \<and> status_of (fst (handle_line ev s line)) = ''success'')"
      and r: "count_success ''init'' (snd (handle_line ev s line)) es = 0"
      by (auto split: if_splits)
    from n Cons.prems(1) have "\<not> is_initialized (snd (handle_line ev s line))"
      by (simp add: flag_step)
    from Cons.IH [OF this r] a False show ?thesis
      by (simp add: split_beta)
  qed
qed


lemma handle_line_process_eq:
  assumes "command_of ev line = Some (JStr ''process'')"
  shows "handle_line ev s line =
     (case json_dumps (fst (handle_process ev s (audio_of ev line))) of
        Inr out \<Rightarrow> (out, snd (handle_process ev s (audio_of ev line)))
      | Inl e \<Rightarrow> (service_error e, snd (handle_process ev s (audio_of ev line))))"
proof -
  from assms obtain c where c: "json_loads ev (strip line) = Inr (JObj c)"
    "map_of c ''command'' = Some (JStr ''process'')"
    by (blast dest: command_of_SomeD)
  then have d: "dispatch ev s c = handle_process ev s (audio_of ev line)"
    by (simp add: dispatch_def audio_of_def)
  show ?thesis
    unfolding handle_line_object [OF c(1)] d by (rule refl)
qed

lemma handle_process_uninitialized:
  assumes "\<not> is_initialized s"
  shows "handle_process ev s a =
     (if \<not> truthy a then no_audio
      else case a of
        Some (JStr t) \<Rightarrow>
          (case decode_audio t of
             Inl e \<Rightarrow> decoding_failed e
           | Inr buf \<Rightarrow> process_refused ''Model not initialized'')
      | _ \<Rightarrow> decoding_failed ''argument should be a bytes-like object or ASCII string'', s)"
  using assms
  by (auto simp: handle_process_def process_audio_def encode_facts
      split: option.splits json.splits sum.splits)

text \<open>
  C3, amended. A \<open>process\<close> command that arrives before any \<open>init\<close> has answered with
  success is answered with status \<open>error\<close> and leaves the whole session state, the
  statistics included, as it was. The message is \<open>Model not initialized\<close> when the audio
  field is a non-empty string that decodes to a float32 buffer; a missing or empty field
  and an undecodable one are answered by the loop itself with their own messages.
\<close>

theorem process_before_init:
  assumes "count_success ''init'' (new_service dev) es = 0"
    and "main_loop (new_service dev) es = (rs, s)"
    and "command_of ev line = Some (JStr ''process'')"
  shows "status_of (fst (handle_line ev s line)) = ''error''
       \<and> snd (handle_line ev s line) = s
       \<and> (\<forall>a buf. audio_of ev line = Some (JStr a) \<and> a \<noteq> [] \<and> decode_audio a = Inr buf \<longrightarrow>
             message_of (fst (handle_line ev s line)) = ''Model not initialized'')"
proof -
  have "\<not> is_initialized (new_service dev)"
    by (simp add: new_service_def)
  from uninitialized_run [OF this assms(1)] assms(2) have u: "\<not> is_initialized s"
    by simp
  show ?thesis
    unfolding handle_line_process_eq [OF assms(3)] handle_process_uninitialized [OF u]
    by (auto simp: error_dict_facts refused_facts split: option.splits json.splits sum.splits)
qed

lemma demo_lines_nonempty:
  "init_line \<noteq> []" "health_line \<noteq> []" "bare_process_line \<noteq> []" "one_sample_line \<noteq> []"
  by (simp_all add: init_line_def health_line_def bare_process_line_def one_sample_line_def)

lemma demo_no_init:
  "count_success ''init'' (new_service ''cpu'') [(demo_env 0 0, health_line)] = 0"
  "main_loop (new_service ''cpu'') [(demo_env 0 0, health_line)]
     = ([health_check (demo_env 0 0) (new_service ''cpu'')], new_service ''cpu'')"
  by (simp_all add: demo_commands handle_line_health demo_lines_nonempty)

theorem process_before_init_witness:
  "count_success ''init'' (new_service ''cpu'') [(demo_env 0 0, health_line)] = 0
   \<and> command_of (demo_env 5 6) one_sample_line = Some (JStr ''process'')
   \<and> audio_of (demo_env 5 6) one_sample_line = Some (JStr ''AACAPw=='')
   \<and> decode_audio ''AACAPw=='' = Inr [f32_one]
   \<and> status_of (fst (handle_line (demo_env 5 6) (new_service ''cpu'') one_sample_line)) = ''error''
   \<and> snd (handle_line (demo_env 5 6) (new_service ''cpu'') one_sample_line) = new_service ''cpu''
   \<and> message_of (fst (handle_line (demo_env 5 6) (new_service ''cpu'') one_sample_line))
       = ''Model not initialized''"
  using process_before_init [OF demo_no_init(1) demo_no_init(2) demo_commands(4), of 5 6]
  by (simp add: demo_commands decode_one demo_no_init)

theorem process_before_init_counterexample:
  "message_of (fst (handle_line (demo_env 5 6) (new_service ''cpu'') bare_process_line))
     \<noteq> ''Model not initialized''"
  by (simp add: handle_line_process_eq demo_commands handle_process_def error_dict_facts)

text \<open>
  C10. A \<open>process\<close> command whose audio field is absent or the empty string is answered
  with \<open>No audio data provided\<close>; the answer and the state do not depend on the state of
  the session or on anything the decoder or the model would do, and the state is left
  as it was.
\<close>

theorem no_audio_provided:
  assumes "command_of ev line = Some (JStr ''process'')"
    and "audio_of ev line = None \<or> audio_of ev line = Some (JStr [])"
  shows "handle_line ev s line = (no_audio, s)
       \<and> status_of no_audio = ''error'' \<and> message_of no_audio = ''No audio data provided''"
proof -
  from assms(2) have "handle_process ev s (audio_of ev line) = (no_audio, s)"
    by (auto simp: handle_process_def)
  then show ?thesis
    by (simp add: handle_line_process_eq [OF assms(1)] error_dict_facts)
qed

theorem no_audio_provided_witness:
  "command_of (demo_env 5 6) bare_process_line = Some (JStr ''process'')
   \<and> audio_of (demo_env 5 6) bare_process_line = None
   \<and> handle_line (demo_env 5 6) (new_service ''cpu'') bare_process_line
       = ([(''status'', PStr ''error''), (''message'', PStr ''No audio data provided'')],
          new_service ''cpu'')"
  using no_audio_provided [of "demo_env 5 6" bare_process_line "new_service ''cpu''"]
  by (simp add: demo_commands no_audio_def)




text \<open>
  C8. The initialised flag is the whole state machine: it starts false, a step never
  clears it, and a step sets it exactly when the line is an \<open>init\<close> command answered with
  status \<open>success\<close>; an \<open>init\<close> answered with status \<open>error\<close> leaves it as it was.
\<close>

theorem two_state_machine:
  "\<not> is_initialized (new_service dev)
   \<and> (is_initialized (snd (handle_line ev s line)) \<longleftrightarrow>
        is_initialized s \<or>
        (command_of ev line = Some (JStr ''init'')
         \<and> status_of (fst (handle_line ev s line)) = ''success''))
   \<and> (status_of (fst (initialize_model ev s)) = ''error'' \<longrightarrow>
        is_initialized (snd (initialize_model ev s)) = is_initialized s)
   \<and> (status_of (fst (initialize_model ev s)) = ''success'' \<longrightarrow>
        is_initialized (snd (initialize_model ev s)))"
  using initialize_model_cases [of ev s]
  by (auto simp: new_service_def flag_step)


theorem two_state_machine_witness:
  "status_of (fst (initialize_model no_model_env (new_service ''cpu''))) = ''error''
   \<and> \<not> is_initialized (snd (initialize_model no_model_env (new_service ''cpu'')))
   \<and> status_of (fst (initialize_model (demo_env 0 2) (new_service ''cpu''))) = ''success''
   \<and> is_initialized (snd (initialize_model (demo_env 0 2) (new_service ''cpu'')))"
  using two_state_machine [of "''cpu''" no_model_env "new_service ''cpu''" init_line]
    two_state_machine [of "''cpu''" "demo_env 0 2" "new_service ''cpu''" init_line]
  by (simp add: initialize_model_def no_model_env_def demo_env_def error_dict_facts)

lemma update_stats_facts:
  "stats_inv (update_stats t st)"
  "total_processed (update_stats t st) = total_processed st + 1"
  "total_time (update_stats t st) = total_time st + t"
  "max_time (update_stats t st) = max (max_time st) t"
  "errors (update_stats t st) = errors st"
  by (simp_all add: update_stats_def stats_inv_def Let_def)

lemma stats_step:
  assumes "stats_inv (processing_stats s)"
  shows "stats_inv (processing_stats (snd (handle_line ev s line)))
       \<and> total_processed (processing_stats (snd (handle_line ev s line)))
           = total_processed (processing_stats s)
             + (if command_of ev line = Some (JStr ''process'')
                   \<and> status_of (fst (handle_line ev s line)) = ''success'' then 1 else 0)"
proof (cases "command_of ev line = Some (JStr ''process'')")
  case True
  then obtain oc where "settled ev s oc (handle_line ev s line)"
    using handle_line_process by blast
  then show ?thesis using assms True
  proof (cases oc)
    case Refused
    then show ?thesis using \<open>settled ev s oc _\<close> assms by (simp add: settled_def)
  next
    case Succeeded
    then show ?thesis using \<open>settled ev s oc _\<close> True
      by (simp add: settled_def update_stats_facts)
  next
    case Failed
    then show ?thesis using \<open>settled ev s oc _\<close> assms
      by (simp add: settled_def count_error_def stats_inv_def)
  qed
next
  case False
  then show ?thesis using assms by (simp add: stats_step_other)
qed

lemma stats_run:
  "stats_inv (processing_stats s) \<Longrightarrow>
   stats_inv (processing_stats (snd (main_loop s es)))
   \<and> total_processed (processing_stats (snd (main_loop s es)))
       = total_processed (processing_stats s) + count_success ''process'' s es"
proof (induction es arbitrary: s)
  case Nil
  then show ?case by simp
next
  case (Cons a es)
  obtain ev line where a: "a = (ev, line)" by (cases a)
  show ?case
  proof (cases "line = []")
    case True
    with a Cons.prems show ?thesis by simp
  next
    case False
    note st = stats_step [OF Cons.prems, of ev line]
    from Cons.IH [of "snd (handle_line ev s line)"] st
    show ?thesis using a False
      by (simp add: split_beta)
  qed
qed

lemma stats_field_health:
  "stats_field (health_check ev s) ''total_processed''
     = Some (PInt (int (total_processed (processing_stats s))))"
  "stats_field (health_check ev s) ''total_time'' = Some (PFloat (total_time (processing_stats s)))"
  "stats_field (health_check ev s) ''avg_time'' = Some (PFloat (avg_time (processing_stats s)))"
  by (simp_all add: stats_field_def health_check_def stats_dict_def lookup_def)

text \<open>
  C4. After a run from a fresh service in which \<open>K\<close> process commands were answered with
  status \<open>success\<close>, whatever else was sent, the answer to a \<open>health\<close> command reports
  \<open>total_processed = K\<close> and, for \<open>K > 0\<close>, \<open>avg_time = total_time / K\<close>; with no
  successful call both times are still zero.
\<close>

theorem health_reports_average:
  assumes "main_loop (new_service dev) es = (rs, s)"
    and "command_of ev line = Some (JStr ''health'')"
    and "K = count_success ''process'' (new_service dev) es"
  shows "\<exists>tt. stats_field (fst (handle_line ev s line)) ''total_processed'' = Some (PInt (int K))
           \<and> stats_field (fst (handle_line ev s line)) ''total_time'' = Some (PFloat tt)
           \<and> stats_field (fst (handle_line ev s line)) ''avg_time''
               = Some (PFloat (if K = 0 then 0 else tt / real K))
           \<and> (K = 0 \<longrightarrow> tt = 0)"
proof -
  have "stats_inv (processing_stats (new_service dev))"
    by (simp add: new_service_def stats_inv_def)
  from stats_run [OF this, of es] assms(1,3)
  have inv: "stats_inv (processing_stats s)" and k: "total_processed (processing_stats s) = K"
    by (simp_all add: new_service_def)
  show ?thesis
    using inv k
    by (auto simp: handle_line_health [OF assms(2)] stats_field_health stats_inv_def)
qed


lemma demo_run_result:
  "count_success ''process'' (new_service ''cpu'') demo_run = 2"
  "total_time (processing_stats (snd (main_loop (new_service ''cpu'') demo_run))) = 12"
  "avg_time (processing_stats (snd (main_loop (new_service ''cpu'') demo_run))) = 6"
  "avg_time (processing_stats (snd (main_loop (new_service ''cpu'') (butlast demo_run)))) = 10"
  by code_simp+

theorem health_reports_average_witness:
  "command_of (demo_env 9 9) health_line = Some (JStr ''health'')
   \<and> count_success ''process'' (new_service ''cpu'') demo_run = 2
   \<and> (\<exists>tt. stats_field (fst (handle_line (demo_env 9 9)
                (snd (main_loop (new_service ''cpu'') demo_run)) health_line)) ''total_processed''
              = Some (PInt 2)
          \<and> stats_field (fst (handle_line (demo_env 9 9)
                (snd (main_loop (new_service ''cpu'') demo_run)) health_line)) ''total_time''
              = Some (PFloat tt)
          \<and> stats_field (fst (handle_line (demo_env 9 9)
                (snd (main_loop (new_service ''cpu'') demo_run)) health_line)) ''avg_time''
              = Some (PFloat (tt / 2)))"
  using health_reports_average [of "''cpu''" demo_run "fst (main_loop (new_service ''cpu'') demo_run)"
      "snd (main_loop (new_service ''cpu'') demo_run)" "demo_env 9 9" health_line 2]
  by (simp add: demo_commands demo_run_result)

lemma counters_step:
  "counters_le (processing_stats s) (processing_stats (snd (handle_line ev s line)))
   \<and> (time_start ev \<le> time_end ev \<longrightarrow>
        total_time (processing_stats s) \<le> total_time (processing_stats (snd (handle_line ev s line))))"
proof (cases "command_of ev line = Some (JStr ''process'')")
  case True
  then obtain oc where oc: "settled ev s oc (handle_line ev s line)"
    using handle_line_process by blast
  show ?thesis
  proof (cases oc)
    case Refused
    with oc show ?thesis by (simp add: settled_def counters_le_def)
  next
    case Succeeded
    with oc show ?thesis
      by (simp add: settled_def counters_le_def update_stats_facts elapsed_ms_def)
  next
    case Failed
    with oc show ?thesis by (simp add: settled_def counters_le_def count_error_def)
  qed
next
  case False
  then show ?thesis by (simp add: stats_step_other counters_le_def)
qed

lemma counters_le_trans:
  "counters_le a b \<Longrightarrow> counters_le b c \<Longrightarrow> counters_le a c"
  by (auto simp: counters_le_def)

lemma counters_run:
  "counters_le (processing_stats s) (processing_stats (snd (main_loop s es)))"
proof (induction es arbitrary: s)
  case Nil
  show ?case by (simp add: counters_le_def)
next
  case (Cons a es)
  obtain ev line where a: "a = (ev, line)" by (cases a)
  show ?case
  proof (cases "line = []")
    case True
    with a show ?thesis by (simp add: counters_le_def)
  next
    case False
    have "counters_le (processing_stats s)
            (processing_stats (snd (main_loop (snd (handle_line ev s line)) es)))"
      using counters_step [of s ev line] Cons.IH [of "snd (handle_line ev s line)"]
      by (blast intro: counters_le_trans)
    with a False show ?thesis by (simp add: split_beta)
  qed
qed

lemma total_time_run:
  "\<forall>p \<in> set es. time_start (fst p) \<le> time_end (fst p) \<Longrightarrow>
   total_time (processing_stats s) \<le> total_time (processing_stats (snd (main_loop s es)))"
proof (induction es arbitrary: s)
  case Nil
  show ?case by simp
next
  case (Cons a es)
  obtain ev line where a: "a = (ev, line)" by (cases a)
  show ?case
  proof (cases "line = []")
    case True
    with a show ?thesis by simp
  next
    case False
    from Cons.prems a have "time_start ev \<le> time_end ev" by simp
    then have "total_time (processing_stats s)
        \<le> total_time (processing_stats (snd (handle_line ev s line)))"
      using counters_step [of s ev line] by simp
    also have "\<dots> \<le> total_time (processing_stats (snd (main_loop (snd (handle_line ev s line)) es)))"
      using Cons.prems by (intro Cons.IH) simp
    finally show ?thesis using a False by (simp add: split_beta)
  qed
qed

text \<open>
  C5, amended. Across every run of the loop, from any state, \<open>total_processed\<close>,
  \<open>max_time\<close> and \<open>errors\<close> never decrease, and \<open>total_time\<close> never decreases as long as
  no measured time is negative (the clock is not set back during a call). \<open>avg_time\<close> is
  the running mean and is not part of the statement.
\<close>

theorem counters_monotone:
  assumes "main_loop s es = (rs, s')"
  shows "total_processed (processing_stats s) \<le> total_processed (processing_stats s')
       \<and> max_time (processing_stats s) \<le> max_time (processing_stats s')
       \<and> errors (processing_stats s) \<le> errors (processing_stats s')
       \<and> ((\<forall>p \<in> set es. time_start (fst p) \<le> time_end (fst p)) \<longrightarrow>
            total_time (processing_stats s) \<le> total_time (processing_stats s'))"
  using counters_run [of s es] total_time_run [of es s] assms
  by (simp add: counters_le_def)

theorem counters_monotone_counterexample:
  "\<not> avg_time (processing_stats (snd (main_loop (new_service ''cpu'') (butlast demo_run))))
      \<le> avg_time (processing_stats (snd (main_loop (new_service ''cpu'') demo_run)))"
  by (simp add: demo_run_result)

lemma demo_run_clock: "\<forall>p \<in> set demo_run. time_start (fst p) \<le> time_end (fst p)"
  by (simp add: demo_run_def demo_env_def)

theorem counters_monotone_witness:
  "list_all (\<lambda>p. time_start (fst p) \<le> time_end (fst p)) demo_run
   \<and> total_processed (processing_stats (new_service ''cpu''))
       \<le> total_processed (processing_stats (snd (main_loop (new_service ''cpu'') demo_run)))
   \<and> total_time (processing_stats (new_service ''cpu'')) \<le> 12
   \<and> total_time (processing_stats (snd (main_loop (new_service ''cpu'') demo_run))) = 12"
  using counters_monotone [of "new_service ''cpu''" demo_run
      "fst (main_loop (new_service ''cpu'') demo_run)" "snd (main_loop (new_service ''cpu'') demo_run)"]
    demo_run_clock
  by (simp add: demo_run_result list_all_iff)

lemma f32_bytes_roundtrip:
  "f32_of_bytes (ucast w) (ucast (drop_bit 8 w)) (ucast (drop_bit 16 w)) (ucast (drop_bit 24 w)) = (w :: float32)"
  unfolding f32_of_bytes_def
proof (rule bit_word_eqI)
  fix n assume "n < LENGTH(32)"
  then consider "n < 8" | "8 \<le> n" "n < 16" | "16 \<le> n" "n < 24" | "24 \<le> n" "n < 32"
    by fastforce
  then show "bit (ucast (ucast w :: byte) OR push_bit 8 (ucast (ucast (drop_bit 8 w) :: byte)) OR
         push_bit 16 (ucast (ucast (drop_bit 16 w) :: byte)) OR push_bit 24 (ucast (ucast (drop_bit 24 w) :: byte)) :: float32) n = bit w n"
    by cases (auto simp: bit_simps)
qed


lemma index_of_nth: "distinct xs \<Longrightarrow> i < length xs \<Longrightarrow> index_of xs (xs ! i) = Some i"
proof (induction xs arbitrary: i)
  case Nil
  then show ?case by simp
next
  case (Cons x xs)
  show ?case
  proof (cases i)
    case 0
    then show ?thesis by simp
  next
    case (Suc j)
    with Cons.prems have "xs ! j \<in> set xs" "x \<notin> set xs" by simp_all
    then have "x \<noteq> xs ! j" by blast
    with Suc Cons show ?thesis by simp
  qed
qed

lemma alphabet_facts:
  "distinct b64_alphabet"
  "length b64_alphabet = 64"
  "CHR 0x3D \<notin> set b64_alphabet"
  "\<forall>c \<in> set b64_alphabet. (of_char c :: nat) < 128"
  by (simp_all add: b64_alphabet_def)

lemma b64_char_facts:
  assumes "i < 64"
  shows "b64_index (b64_char i) = Some i" "b64_char i \<noteq> CHR 0x3D" "(of_char (b64_char i) :: nat) < 128"
proof -
  from assms have m: "b64_char i \<in> set b64_alphabet"
    by (simp add: b64_char_def alphabet_facts)
  show "b64_index (b64_char i) = Some i"
    using assms by (simp add: b64_index_def b64_char_def index_of_nth alphabet_facts)
  show "b64_char i \<noteq> CHR 0x3D" using m alphabet_facts(3) by metis
  show "(of_char (b64_char i) :: nat) < 128" using m alphabet_facts(4) by blast
qed


lemma sextets:
  fixes a b c :: nat
  assumes "a < 256" "b < 256" "c < 256"
  shows "a div 4 < 64" "a mod 4 * 16 + b div 16 < 64" "b mod 16 * 4 + c div 64 < 64" "c mod 64 < 64"
    "a mod 4 * 16 < 64" "b mod 16 * 4 < 64"
    "a div 4 * 4 + (a mod 4 * 16 + b div 16) div 16 = a"
    "(a mod 4 * 16 + b div 16) mod 16 * 16 + (b mod 16 * 4 + c div 64) div 4 = b"
    "(b mod 16 * 4 + c div 64) mod 4 * 64 + c mod 64 = c"
    "a div 4 * 4 + (a mod 4 * 16) div 16 = a"
    "(a mod 4 * 16 + b div 16) mod 16 * 16 + (b mod 16 * 4) div 4 = b"
  using assms by simp_all

lemma byte_bound: "unat (a :: byte) < 256"
  using unsigned_less [of a, where ?'a = nat] by simp

lemma a2b_data:
  assumes "v < 64"
  shows "a2b_base64 quad_pos leftchar pads (b64_char v # cs) =
          (if quad_pos = 0 then a2b_base64 1 v 0 cs
           else if quad_pos = 1
           then emit (of_nat (leftchar * 4 + v div 16)) (a2b_base64 2 (v mod 16) 0 cs)
           else if quad_pos = 2
           then emit (of_nat (leftchar * 16 + v div 4)) (a2b_base64 3 (v mod 4) 0 cs)
           else emit (of_nat (leftchar * 64 + v)) (a2b_base64 0 0 0 cs))"
  using b64_char_facts [OF assms] by simp

lemma a2b_pad:
  "a2b_base64 quad_pos leftchar pads (CHR 0x3D # cs) =
     (if 2 \<le> quad_pos \<and> 4 \<le> quad_pos + (pads + 1) then Inr []
      else a2b_base64 quad_pos leftchar (if 2 \<le> quad_pos then pads + 1 else pads) cs)"
  by simp

lemma a2b_quad:
  assumes "v1 < 64" "v2 < 64" "v3 < 64" "v4 < 64"
  shows "a2b_base64 0 leftchar pads (b64_char v1 # b64_char v2 # b64_char v3 # b64_char v4 # cs) =
           emit (of_nat (v1 * 4 + v2 div 16)) (emit (of_nat (v2 mod 16 * 16 + v3 div 4))
             (emit (of_nat (v3 mod 4 * 64 + v4)) (a2b_base64 0 0 0 cs)))"
  by (simp add: a2b_data assms del: a2b_base64.simps(2) of_nat_add of_nat_mult)

lemma a2b_triple:
  assumes "v1 < 64" "v2 < 64" "v3 < 64"
  shows "a2b_base64 0 leftchar pads [b64_char v1, b64_char v2, b64_char v3, CHR 0x3D] =
           Inr [of_nat (v1 * 4 + v2 div 16), of_nat (v2 mod 16 * 16 + v3 div 4)]"
  by (simp add: a2b_data a2b_pad assms emit_def del: a2b_base64.simps(2) of_nat_add of_nat_mult)

lemma a2b_pair:
  assumes "v1 < 64" "v2 < 64"
  shows "a2b_base64 0 leftchar pads [b64_char v1, b64_char v2, CHR 0x3D, CHR 0x3D] =
           Inr [of_nat (v1 * 4 + v2 div 16)]"
  by (simp add: a2b_data a2b_pad assms emit_def del: a2b_base64.simps(2) of_nat_add of_nat_mult)

lemma a2b_b64encode: "a2b_base64 0 0 0 (b64encode bs) = Inr bs"
proof (induction bs rule: b64encode.induct)
  case 1
  show ?case by simp
next
  case (2 a)
  note s = sextets [OF byte_bound [of a] byte_bound [of a] byte_bound [of a]]
  have "a2b_base64 0 0 0 (b64encode [a]) = Inr [of_nat (unat a)]"
    unfolding b64encode.simps a2b_pair [OF s(1) s(5)] s(10) by (rule refl)
  then show ?case by simp
next
  case (3 a b)
  note s = sextets [OF byte_bound [of a] byte_bound [of b] byte_bound [of b]]
  have "(unat a mod 4 * 16 + unat b div 16) mod 16 * 16 + unat b mod 16 * 4 div 4 = unat b"
    using s(11) by simp
  then have "a2b_base64 0 0 0 (b64encode [a, b]) = Inr [of_nat (unat a), of_nat (unat b)]"
    unfolding b64encode.simps a2b_triple [OF s(1) s(2) s(6)] s(7) by simp
  then show ?case by simp
next
  case (4 a b c bs)
  note s = sextets [OF byte_bound [of a] byte_bound [of b] byte_bound [of c]]
  have "a2b_base64 0 0 0 (b64encode (a # b # c # bs)) =
      emit (of_nat (unat a)) (emit (of_nat (unat b)) (emit (of_nat (unat c)) (a2b_base64 0 0 0 (b64encode bs))))"
    unfolding b64encode.simps a2b_quad [OF s(1) s(2) s(3) s(4)] s(7) s(8) s(9) by (rule refl)
  then show ?case by (simp add: 4 emit_def)
qed

lemma b64encode_ascii: "ch \<in> set (b64encode bs) \<Longrightarrow> (of_char ch :: nat) < 128"
proof (induction bs arbitrary: ch rule: b64encode.induct)
  case 1
  then show ?case by simp
next
  case (2 a)
  note s = sextets [OF byte_bound [of a] byte_bound [of a] byte_bound [of a]]
  from 2 show ?case by (auto simp: b64_char_facts s)
next
  case (3 a b)
  note s = sextets [OF byte_bound [of a] byte_bound [of b] byte_bound [of b]]
  from 3 show ?case by (auto simp: b64_char_facts s)
next
  case (4 a b c bs)
  note s = sextets [OF byte_bound [of a] byte_bound [of b] byte_bound [of c]]
  from 4 show ?case by (auto simp: b64_char_facts s)
qed

lemma b64decode_b64encode: "b64decode (b64encode bs) = Inr bs"
  using b64encode_ascii [of _ bs]
  by (auto simp: b64decode_def a2b_b64encode not_le [symmetric])


lemma group4_tobytes: "group4 (tobytes xs) = xs"
  by (induction xs) (simp_all add: tobytes_def f32_to_bytes_def f32_bytes_roundtrip)

lemma length_tobytes: "length (tobytes xs) = 4 * length xs"
  by (induction xs) (simp_all add: tobytes_def f32_to_bytes_def)

lemma frombuffer_tobytes: "frombuffer (tobytes xs) = Inr xs"
  by (simp add: frombuffer_def length_tobytes group4_tobytes)

lemma decode_encode: "decode_audio (b64encode (tobytes buf)) = Inr buf"
  by (simp add: decode_audio_def b64decode_b64encode frombuffer_tobytes)

text \<open>
  C7. Encoding a buffer as the service does (\<open>tobytes\<close>, then base64) and decoding it as
  the service does (base64, then \<open>frombuffer\<close>) gives back the same bit patterns, for
  every buffer. The empty buffer encodes to the empty string, which the loop answers with
  the envelope \<open>No audio data provided\<close>; an empty buffer that reaches \<open>process_audio\<close>
  is refused there too, and neither touches the state.
\<close>

theorem base64_roundtrip:
  "decode_audio (b64encode (tobytes buf)) = Inr buf
   \<and> b64encode (tobytes []) = []
   \<and> (command_of ev line = Some (JStr ''process'')
        \<and> audio_of ev line = Some (JStr (b64encode (tobytes []))) \<longrightarrow>
       handle_line ev s line = (no_audio, s) \<and> status_of no_audio = ''error'')
   \<and> status_of (fst (process_audio ev s [])) = ''error''
   \<and> snd (process_audio ev s []) = s"
proof -
  have e: "b64encode (tobytes []) = []"
    by (simp add: tobytes_def)
  have "handle_line ev s line = (no_audio, s)"
    if "command_of ev line = Some (JStr ''process'')"
      and "audio_of ev line = Some (JStr (b64encode (tobytes [])))"
    using that by (simp add: handle_line_process_eq e handle_process_def error_dict_facts)
  moreover have "status_of (fst (process_audio ev s [])) = ''error'' \<and> snd (process_audio ev s []) = s"
    by (simp add: process_audio_def refused_facts)
  ultimately show ?thesis
    by (simp add: decode_encode e error_dict_facts)
qed

lemma empty_audio_demo:
  "command_of (demo_env 1 2) empty_audio_line = Some (JStr ''process'')"
  "audio_of (demo_env 1 2) empty_audio_line = Some (JStr [])"
  by code_simp+

theorem base64_roundtrip_witness:
  "decode_audio (b64encode (tobytes [f32_one, f32_quiet_nan])) = Inr [f32_one, f32_quiet_nan]
   \<and> command_of (demo_env 1 2) empty_audio_line = Some (JStr ''process'')
   \<and> audio_of (demo_env 1 2) empty_audio_line = Some (JStr (b64encode (tobytes [])))
   \<and> handle_line (demo_env 1 2) (new_service ''cpu'') empty_audio_line
       = ([(''status'', PStr ''error''), (''message'', PStr ''No audio data provided'')],
          new_service ''cpu'')"
  using base64_roundtrip [of "[f32_one, f32_quiet_nan]" "demo_env 1 2" empty_audio_line
      "new_service ''cpu''"]
  by (simp add: empty_audio_demo no_audio_def)

lemma length_normalize_audio: "length (normalize_audio buf) = length buf"
  by (simp add: normalize_audio_def)

lemma length_match_length: "length (match_length n d) = n"
  by (simp add: match_length_def)

lemma match_length_eq:
  "match_length n d = (if n < length d then take n d else d @ replicate (n - length d) f32_zero)"
  by (simp add: match_length_def)

lemma b64encode_nonempty: "buf \<noteq> [] \<Longrightarrow> b64encode (tobytes buf) \<noteq> []"
  by (cases buf) (simp_all add: tobytes_def f32_to_bytes_def)

lemma ready_step:
  assumes "is_initialized s \<longrightarrow> model s \<noteq> None"
  shows "is_initialized (snd (handle_line ev s line)) \<longrightarrow> model (snd (handle_line ev s line)) \<noteq> None"
proof (cases "command_of ev line = Some (JStr ''init'')")
  case True
  then show ?thesis
    using initialize_model_cases [of ev s] assms
    by (cases "load_model ev"; cases "to_device_eval ev")
       (auto simp: handle_line_init initialize_model_def)
next
  case False
  show ?thesis
  proof (cases "command_of ev line = Some (JStr ''process'')")
    case True
    then obtain oc where "settled ev s oc (handle_line ev s line)"
      using handle_line_process by blast
    then show ?thesis using assms
      by (cases oc) (auto simp: settled_def count_error_def)
  next
    case p: False
    with False assms show ?thesis by (simp add: handle_line_other)
  qed
qed

lemma ready_run:
  "is_initialized s \<longrightarrow> model s \<noteq> None \<Longrightarrow>
   is_initialized (snd (main_loop s es)) \<longrightarrow> model (snd (main_loop s es)) \<noteq> None"
proof (induction es arbitrary: s)
  case Nil
  then show ?case by simp
next
  case (Cons a es)
  obtain ev line where a: "a = (ev, line)" by (cases a)
  show ?case
  proof (cases "line = []")
    case True
    with a Cons.prems show ?thesis by simp
  next
    case False
    from Cons.IH [OF ready_step [OF Cons.prems, of ev line]] a False show ?thesis
      by (simp add: split_beta)
  qed
qed

lemma ready_after_init:
  assumes "main_loop (new_service dev) es = (rs, s)" "is_initialized s"
  shows "model s \<noteq> None"
  using ready_run [of "new_service dev" es] assms by (simp add: new_service_def)

lemma handle_process_ready:
  assumes "is_initialized s" "model s \<noteq> None" "buf \<noteq> []"
  shows "handle_process ev s (Some (JStr (b64encode (tobytes buf)))) =
     (case invoke_model ev s (normalize_audio buf) of
        Inr d \<Rightarrow>
          (process_response (match_length (length buf) d) (elapsed_ms ev) (length buf)
             (update_stats (elapsed_ms ev) (processing_stats s)),
           s\<lparr>processing_stats := update_stats (elapsed_ms ev) (processing_stats s)\<rparr>)
      | Inl e \<Rightarrow> (process_failed e (normalize_audio buf) (elapsed_ms ev), count_error s))"
  using assms
  by (auto simp: handle_process_def b64encode_nonempty decode_encode process_audio_def Let_def
      length_normalize_audio encode_facts process_response_def split: sum.splits)


text \<open>
  C2. After a successful init, a process command carrying a non-empty buffer of \<open>N\<close>
  samples that is answered with status \<open>success\<close> carries, in base64, a buffer that
  decodes to exactly \<open>N\<close> samples: the model's output cut to \<open>N\<close> when it is longer
  and padded with zeros to \<open>N\<close> when it is shorter.
\<close>

theorem output_length:
  assumes "main_loop (new_service dev) es = (rs, s)" and "is_initialized s"
    and "buf \<noteq> []"
    and "command_of ev line = Some (JStr ''process'')"
    and "audio_of ev line = Some (JStr (b64encode (tobytes buf)))"
    and "status_of (fst (handle_line ev s line)) = ''success''"
  shows "\<exists>d out a. invoke_model ev s (normalize_audio buf) = Inr d
           \<and> lookup (fst (handle_line ev s line)) ''audio'' = Some (PStr a)
           \<and> decode_audio a = Inr out
           \<and> length out = length buf
           \<and> out = (if length buf < length d then take (length buf) d
                     else d @ replicate (length buf - length d) f32_zero)"
proof -
  have m: "model s \<noteq> None"
    using ready_after_init [OF assms(1,2)] .
  note hp = handle_process_ready [OF assms(2) m assms(3), of ev]
  show ?thesis
  proof (cases "invoke_model ev s (normalize_audio buf)")
    case (Inl e)
    then have "status_of (fst (handle_line ev s line)) = ''error''"
      by (simp add: handle_line_process_eq [OF assms(4)] assms(5) hp failed_facts error_dict_facts)
    with assms(6) show ?thesis by simp
  next
    case (Inr d)
    then have "lookup (fst (handle_line ev s line)) ''audio''
        = Some (PStr (b64encode (tobytes (match_length (length buf) d))))"
      by (simp add: handle_line_process_eq [OF assms(4)] assms(5) hp response_facts)
    with Inr show ?thesis
      by (simp add: decode_encode length_match_length match_length_eq)
  qed
qed

lemma demo_init:
  "initialize_model (demo_env t0 t1) s =
     (init_succeeded (s\<lparr>model := Some (ModelHandle ''demucs.demucs.Demucs''), has_apply_model := True\<rparr>)
        (t1 - t0),
      s\<lparr>model := Some (ModelHandle ''demucs.demucs.Demucs''), has_apply_model := True,
        is_initialized := True\<rparr>)"
  by (simp add: initialize_model_def demo_env_def)

lemma demo_invoke: "has_apply_model s \<Longrightarrow> invoke_model (demo_env t0 t1) s audio = Inr audio"
  by (simp add: invoke_model_def demo_env_def)

lemma demo_ready:
  "main_loop (new_service ''cpu'') [(demo_env 0 2, init_line)]
     = ([fst (initialize_model (demo_env 0 2) (new_service ''cpu''))], ready_service)"
  "is_initialized ready_service"
  "model ready_service \<noteq> None"
  "has_apply_model ready_service"
  "processing_stats ready_service = processing_stats (new_service ''cpu'')"
  by (simp_all add: demo_lines_nonempty handle_line_init demo_commands ready_service_def split_beta
        demo_init)

lemma encode_one: "b64encode (tobytes [f32_one]) = ''AACAPw==''"
  by code_simp

theorem output_length_witness:
  "main_loop (new_service ''cpu'') [(demo_env 0 2, init_line)]
     = ([fst (initialize_model (demo_env 0 2) (new_service ''cpu''))], ready_service)
   \<and> is_initialized ready_service
   \<and> [f32_one] \<noteq> []
   \<and> command_of (demo_env 5 5.01) one_sample_line = Some (JStr ''process'')
   \<and> audio_of (demo_env 5 5.01) one_sample_line = Some (JStr (b64encode (tobytes [f32_one])))
   \<and> status_of (fst (handle_line (demo_env 5 5.01) ready_service one_sample_line)) = ''success''
   \<and> (\<exists>out a. lookup (fst (handle_line (demo_env 5 5.01) ready_service one_sample_line)) ''audio''
                 = Some (PStr a)
          \<and> decode_audio a = Inr out \<and> length out = 1)"
proof -
  have st: "status_of (fst (handle_line (demo_env 5 5.01) ready_service one_sample_line)) = ''success''"
    by (simp add: handle_line_process_eq demo_commands encode_one [symmetric]
          handle_process_ready demo_ready demo_invoke response_facts)
  have ne: "[f32_one] \<noteq> []" by simp
  have au: "audio_of (demo_env 5 5.01) one_sample_line = Some (JStr (b64encode (tobytes [f32_one])))"
    by (simp add: demo_commands encode_one)
  have "\<exists>out a. lookup (fst (handle_line (demo_env 5 5.01) ready_service one_sample_line)) ''audio''
                 = Some (PStr a)
          \<and> decode_audio a = Inr out \<and> length out = 1"
    using output_length [OF demo_ready(1) demo_ready(2) ne demo_commands(4) au st] by auto
  with demo_ready(1) demo_ready(2) ne demo_commands(4) [of 5 "5.01"] au st show ?thesis
    by blast
qed

lemma three_byte_demo:
  "command_of broken_model_env three_byte_line = Some (JStr ''process'')"
  "audio_of broken_model_env three_byte_line = Some (JStr ''AAAA'')"
  "decode_audio ''AAAA'' = Inl ''buffer size must be a multiple of element size''"
  "normalize_audio [f32_one] = [f32_one]"
  "elapsed_ms broken_model_env = 250"
  by code_simp+

lemma broken_invoke:
  "has_apply_model s \<Longrightarrow> invoke_model broken_model_env s audio = Inl ''CUDA out of memory''"
  by (simp add: invoke_model_def broken_model_env_def demo_env_def)

text \<open>
  C1, amended. For every process command that fails during decoding after a successful
  init (the audio is a non-empty string that is not base64 text of whole float32 samples),
  the response delivered to the caller has the status \<open>error\<close> and the message
  \<open>Audio decoding/encoding failed: ...\<close>, it carries neither an audio payload nor the
  elapsed time, and the state of the service is left as it was.
\<close>

theorem decoding_failure_response:
  assumes "main_loop (new_service dev) es = (rs, s)" and "is_initialized s"
    and "command_of ev line = Some (JStr ''process'')"
    and "audio_of ev line = Some (JStr a)" and "a \<noteq> []"
    and "decode_audio a = Inl e"
  shows "status_of (fst (handle_line ev s line)) = ''error''
       \<and> message_of (fst (handle_line ev s line)) = ''Audio decoding/encoding failed: '' @ e
       \<and> lookup (fst (handle_line ev s line)) ''audio'' = None
       \<and> lookup (fst (handle_line ev s line)) ''processing_time'' = None
       \<and> snd (handle_line ev s line) = s"
proof -
  have "handle_line ev s line = (decoding_failed e, s)"
    using assms(3-6) by (simp add: handle_line_process_eq handle_process_def error_dict_facts)
  then show ?thesis
    by (simp add: decoding_failed_def status_of_def message_of_def lookup_def)
qed

theorem decoding_failure_response_witness:
  "main_loop (new_service ''cpu'') [(demo_env 0 2, init_line)]
     = ([fst (initialize_model (demo_env 0 2) (new_service ''cpu''))], ready_service)
   \<and> is_initialized ready_service
   \<and> command_of broken_model_env three_byte_line = Some (JStr ''process'')
   \<and> audio_of broken_model_env three_byte_line = Some (JStr ''AAAA'')
   \<and> decode_audio ''AAAA'' = Inl ''buffer size must be a multiple of element size''
   \<and> status_of (fst (handle_line broken_model_env ready_service three_byte_line)) = ''error''
   \<and> message_of (fst (handle_line broken_model_env ready_service three_byte_line))
        = ''Audio decoding/encoding failed: buffer size must be a multiple of element size''
   \<and> lookup (fst (handle_line broken_model_env ready_service three_byte_line)) ''audio'' = None
   \<and> lookup (fst (handle_line broken_model_env ready_service three_byte_line)) ''processing_time''
        = None
   \<and> snd (handle_line broken_model_env ready_service three_byte_line) = ready_service"
  using decoding_failure_response [OF demo_ready(1) demo_ready(2) three_byte_demo(1)
      three_byte_demo(2) _ three_byte_demo(3)]
    demo_ready(1) demo_ready(2) three_byte_demo(1) three_byte_demo(2) three_byte_demo(3)
  by (simp del: main_loop.simps)

theorem decoding_failure_response_counterexample:
  "is_initialized ready_service
   \<and> decode_audio ''AAAA'' = Inl ''buffer size must be a multiple of element size''
   \<and> lookup (fst (handle_line broken_model_env ready_service three_byte_line)) ''audio'' = None"
proof -
  have "handle_line broken_model_env ready_service three_byte_line
      = (decoding_failed ''buffer size must be a multiple of element size'', ready_service)"
    by (simp add: three_byte_demo handle_line_process_eq handle_process_def error_dict_facts)
  then show ?thesis
    by (simp add: demo_ready three_byte_demo decoding_failed_def lookup_def)
qed

text \<open>
  What reaches the caller when the model raises. The result that \<open>process_audio\<close>
  returns still holds the numpy array (line 201, commented \<^verbatim>\<open>Return original audio on error\<close>),
  the loop encodes the audio of successful results only, so \<^verbatim>\<open>json.dumps\<close> raises
  TypeError and the general handler of the loop answers with a service error that carries
  neither the audio nor the elapsed time. The error has been counted by then.
\<close>

lemma inference_failure_response:
  assumes "is_initialized s" "model s \<noteq> None" "buf \<noteq> []"
    and "command_of ev line = Some (JStr ''process'')"
    and "audio_of ev line = Some (JStr (b64encode (tobytes buf)))"
    and "invoke_model ev s (normalize_audio buf) = Inl e"
  shows "handle_line ev s line
           = (service_error ''Object of type ndarray is not JSON serializable'', count_error s)"
    and "lookup (fst (handle_line ev s line)) ''audio'' = None"
    and "lookup (fst (handle_line ev s line)) ''processing_time'' = None"
proof -
  show r: "handle_line ev s line
      = (service_error ''Object of type ndarray is not JSON serializable'', count_error s)"
    using assms(6)
    by (simp add: handle_line_process_eq [OF assms(4)] assms(5)
          handle_process_ready [OF assms(1,2,3)] failed_facts)
  show "lookup (fst (handle_line ev s line)) ''audio'' = None"
    "lookup (fst (handle_line ev s line)) ''processing_time'' = None"
    by (simp_all add: r service_error_def lookup_def)
qed

lemma inference_failure_demo:
  "handle_line broken_model_env ready_service one_sample_line
     = (service_error ''Object of type ndarray is not JSON serializable'', count_error ready_service)"
proof -
  have c: "command_of broken_model_env one_sample_line = Some (JStr ''process'')"
    "audio_of broken_model_env one_sample_line = Some (JStr (b64encode (tobytes [f32_one])))"
    unfolding encode_one by code_simp+
  show ?thesis
    by (rule inference_failure_response(1) [OF demo_ready(2) demo_ready(3) _ c])
       (simp_all add: broken_invoke demo_ready)
qed










































end
